theory Spec2Isabelle
  imports Main "HOL-Library.Sublist" "HOL-Library.Multiset" "HOL-Library.Word"
begin

section \<open>Strings and exceptions of \<^verbatim>\<open>backend/main.py\<close>\<close>

text \<open>
  A Python \<^verbatim>\<open>str\<close> is modelled as a \<open>string\<close>, one \<open>char\<close> per code point, so the model
  covers the code points below 256. \<^verbatim>\<open>sub in s\<close> is the contiguous-sublist test,
  \<^verbatim>\<open>s.endswith(t)\<close> the suffix test, \<^verbatim>\<open>s[:n]\<close> is \<open>take n s\<close>.
\<close>

definition py_in :: "string \<Rightarrow> string \<Rightarrow> bool" where
  "py_in sub s = sublist sub s"

definition endswith :: "string \<Rightarrow> string \<Rightarrow> bool" where
  "endswith s t = suffix t s"

text \<open>
  \<^verbatim>\<open>str.lower()\<close> on code points below 256: the ASCII capitals and the Latin-1 capitals
  (\<open>0xC0\<close> to \<open>0xDE\<close>, the multiplication sign \<open>0xD7\<close> apart) move up by 32.
\<close>

definition lower_char :: "char \<Rightarrow> char" where
  "lower_char c =
     (let n = of_char c :: nat
      in if (65 \<le> n \<and> n \<le> 90) \<or> (192 \<le> n \<and> n \<le> 222 \<and> n \<noteq> 215)
         then char_of (n + 32) else c)"

definition lower :: "string \<Rightarrow> string" where
  "lower s = map lower_char s"

text \<open>\<^verbatim>\<open>sep.join(xs)\<close>.\<close>

fun join :: "string \<Rightarrow> string list \<Rightarrow> string" where
  "join sep [] = []"
| "join sep [x] = x"
| "join sep (x # y # ys) = x @ sep @ join sep (y # ys)"

text \<open>
  The exceptions that reach \<^verbatim>\<open>handle_error\<close>. The handler tells three kinds apart:
  FastAPI's \<^verbatim>\<open>HTTPException\<close> (status code and detail), \<^verbatim>\<open>OSError\<close> with its subclasses
  (\<^verbatim>\<open>IOError\<close> is the same class), and every other exception. Of the last two it reads
  only \<^verbatim>\<open>str(error)\<close>, which is what the constructors carry.
\<close>

datatype py_exn =
    HTTPException int string
  | OSError string
  | PyException string

record error_details =
  status_code :: int
  detail :: string

text \<open>\<^verbatim>\<open>handle_error\<close>, lines 65 to 82, in the order of its tests.\<close>

fun handle_error :: "py_exn \<Rightarrow> error_details" where
  "handle_error (HTTPException sc d) = \<lparr>status_code = sc, detail = d\<rparr>"
| "handle_error (OSError error_msg) =
     \<lparr>status_code = 500, detail = ''File operation failed: '' @ error_msg\<rparr>"
| "handle_error (PyException error_msg) =
     (if py_in ''PDF'' error_msg
      then \<lparr>status_code = 400, detail = ''PDF processing error: '' @ error_msg\<rparr>
      else if py_in ''openai'' (lower error_msg)
      then \<lparr>status_code = 503, detail = ''AI service error: '' @ error_msg\<rparr>
      else \<lparr>status_code = 500, detail = ''Unexpected error: '' @ error_msg\<rparr>)"

text \<open>\<^verbatim>\<open>str(error)\<close> and the \<^verbatim>\<open>isinstance\<close> test of line 67.\<close>

fun str_of :: "py_exn \<Rightarrow> string" where
  "str_of (HTTPException sc d) = d"
| "str_of (OSError m) = m"
| "str_of (PyException m) = m"

fun is_HTTPException :: "py_exn \<Rightarrow> bool" where
  "is_HTTPException (HTTPException sc d) = True"
| "is_HTTPException e = False"

fun is_OSError :: "py_exn \<Rightarrow> bool" where
  "is_OSError (OSError m) = True"
| "is_OSError e = False"

section \<open>The request handlers\<close>

text \<open>
  What the libraries and the operating system do during one request. None of it is code
  of \<^verbatim>\<open>main.py\<close>, so it is a parameter of the model:
  \<^item> \<open>uuid4\<close>: the value of \<^verbatim>\<open>str(uuid.uuid4())\<close>; \<open>now_isoformat\<close>: of
    \<^verbatim>\<open>datetime.now().isoformat()\<close>;
  \<^item> \<open>write_file path bytes\<close>: \<^verbatim>\<open>open(path, "wb")\<close> and \<^verbatim>\<open>shutil.copyfileobj\<close>; \<open>Some m\<close> is
    an \<^verbatim>\<open>OSError\<close> whose text is \<open>m\<close>;
  \<^item> \<open>fitz_page_texts path bytes\<close>: \<^verbatim>\<open>fitz.open(path)\<close> on the file that holds \<open>bytes\<close> and
    \<^verbatim>\<open>page.get_text()\<close> of each page; \<open>Inl m\<close> is an exception whose text is \<open>m\<close>;
  \<^item> \<open>split_text chunk_size chunk_overlap text\<close>: \<^verbatim>\<open>split_text\<close> of the
    \<^verbatim>\<open>RecursiveCharacterTextSplitter\<close>; \<open>Inl m\<close> is an exception, not an \<^verbatim>\<open>OSError\<close>, whose
    text is \<open>m\<close>;
  \<^item> \<open>from_texts texts\<close>: \<^verbatim>\<open>FAISS.from_texts(texts, cached_embeddings)\<close>; \<open>Inl m\<close> as above;
  \<^item> \<open>similarity_search store query k\<close>: the \<^verbatim>\<open>page_content\<close> of the documents returned;
    \<open>Inl m\<close> as above.
  The handlers catch the exceptions of \<^verbatim>\<open>fitz\<close> and of the vector store and keep only
  their text. Calls to the logger and to \<^verbatim>\<open>print\<close> are left out. The filename of an
  upload is a \<^verbatim>\<open>str\<close>.
\<close>

record 'vs env =
  uuid4 :: string
  now_isoformat :: string
  write_file :: "string \<Rightarrow> 8 word list \<Rightarrow> string option"
  fitz_page_texts :: "string \<Rightarrow> 8 word list \<Rightarrow> string + string list"
  split_text :: "nat \<Rightarrow> nat \<Rightarrow> string \<Rightarrow> string + string list"
  from_texts :: "string list \<Rightarrow> string + 'vs"
  similarity_search :: "'vs \<Rightarrow> string \<Rightarrow> int \<Rightarrow> string + string list"

record upload_file =
  filename :: string
  file_bytes :: "8 word list"

record upload_response =
  upload_id :: string
  upload_name :: string
  upload_timestamp :: string

record question_request =
  document_id :: string
  question :: string

record ask_response =
  ask_id :: string
  ask_question_text :: string
  ask_answer :: string
  ask_timestamp :: string

text \<open>\<^verbatim>\<open>document_stores\<close>, the dictionary of line 59.\<close>

type_synonym 'vs document_stores = "string \<rightharpoonup> 'vs"

definition UPLOAD_DIR :: string where
  "UPLOAD_DIR = ''uploads''"

text \<open>\<^verbatim>\<open>os.path.join(a, b)\<close> of two components, on POSIX.\<close>

definition os_path_join :: "string \<Rightarrow> string \<Rightarrow> string" where
  "os_path_join a b =
     (if b \<noteq> [] \<and> hd b = CHR ''/'' then b
      else if a = [] \<or> last a = CHR ''/'' then a @ b
      else a @ ''/'' @ b)"

text \<open>The path of line 92, for the identifier drawn in this request.\<close>

definition file_path_of :: "'vs env \<Rightarrow> string" where
  "file_path_of e = os_path_join UPLOAD_DIR (uuid4 e @ ''.pdf'')"

text \<open>
  The body of the outer \<^verbatim>\<open>try\<close> of \<^verbatim>\<open>upload_pdf\<close>, lines 87 to 131: the exception it raises
  or the dictionary it returns, and \<^verbatim>\<open>document_stores\<close> afterwards.
\<close>

definition upload_pdf_body ::
  "'vs env \<Rightarrow> 'vs document_stores \<Rightarrow> upload_file \<Rightarrow> (py_exn + upload_response) \<times> 'vs document_stores"
where
  "upload_pdf_body e stores file =
     (if \<not> endswith (filename file) ''.pdf''
      then (Inl (HTTPException 400 ''Only PDF files are allowed''), stores)
      else
        let doc_id = uuid4 e;
            file_path = os_path_join UPLOAD_DIR (doc_id @ ''.pdf'')
        in case write_file e file_path (file_bytes file) of
             Some m \<Rightarrow> (Inl (OSError m), stores)
           | None \<Rightarrow>
               (case fitz_page_texts e file_path (file_bytes file) of
                  Inl m \<Rightarrow> (Inl (PyException (''Failed to extract text from PDF: '' @ m)), stores)
                | Inr pages \<Rightarrow>
                    (case split_text e 1000 200 (join '' '' pages) of
                       Inl m \<Rightarrow> (Inl (PyException m), stores)
                     | Inr texts \<Rightarrow>
                         (case from_texts e texts of
                            Inl m \<Rightarrow>
                              (Inl (PyException (''Failed to process document: '' @ m)), stores)
                          | Inr vector_store \<Rightarrow>
                              (Inr \<lparr>upload_id = doc_id, upload_name = filename file,
                                    upload_timestamp = now_isoformat e\<rparr>,
                               stores(doc_id \<mapsto> vector_store))))))"

text \<open>The outer \<^verbatim>\<open>except\<close>, lines 133 to 138: every exception leaves as an HTTP error.\<close>

definition upload_pdf ::
  "'vs env \<Rightarrow> 'vs document_stores \<Rightarrow> upload_file \<Rightarrow> (error_details + upload_response) \<times> 'vs document_stores"
where
  "upload_pdf e stores file =
     (case upload_pdf_body e stores file of
        (Inl err, stores') \<Rightarrow> (Inl (handle_error err), stores')
      | (Inr r, stores') \<Rightarrow> (Inr r, stores'))"

text \<open>\<^verbatim>\<open>ask_question\<close>, lines 142 to 175; it only reads \<^verbatim>\<open>document_stores\<close>.\<close>

definition ask_question_body ::
  "'vs env \<Rightarrow> 'vs document_stores \<Rightarrow> question_request \<Rightarrow> py_exn + ask_response"
where
  "ask_question_body e stores request =
     (case stores (document_id request) of
        None \<Rightarrow> Inl (HTTPException 404 ''Document not found'')
      | Some vector_store \<Rightarrow>
          (case similarity_search e vector_store (question request) 4 of
             Inl m \<Rightarrow> Inl (PyException (''Failed to generate answer: '' @ m))
           | Inr docs \<Rightarrow>
               let context = join [CHR 0x0A] docs;
                   response = ''Based on the context, here is the answer: '' @ take 500 context @ ''...''
               in Inr \<lparr>ask_id = uuid4 e, ask_question_text = question request,
                       ask_answer = response, ask_timestamp = now_isoformat e\<rparr>))"

definition ask_question ::
  "'vs env \<Rightarrow> 'vs document_stores \<Rightarrow> question_request \<Rightarrow> error_details + ask_response"
where
  "ask_question e stores request =
     (case ask_question_body e stores request of
        Inl err \<Rightarrow> Inl (handle_error err)
      | Inr r \<Rightarrow> Inr r)"

section \<open>The Embedding Cache\<close>

text \<open>
  Modelled from the spec: the Embedding Cache. \<^verbatim>\<open>main.py\<close> only constructs it (lines 45
  to 53, LangChain's \<^verbatim>\<open>CacheBackedEmbeddings\<close> over a \<^verbatim>\<open>LocalFileStore\<close>, with the model
  name as namespace); the code of its lookup is not part of the repository's sources.
  The model follows section 4.2 of the specification: the fingerprint is a hash over the
  model identity and the text; on a hit the cached vector is returned without invoking
  the external capability; on a miss the capability is invoked once, its result is stored
  under the fingerprint and returned; when the capability fails the call fails with
  \<open>EmbeddingServiceError\<close> and nothing is stored.

  The hash is a parameter \<open>fingerprint\<close>. The external capability \<open>embed_vector\<close> takes and
  returns the state \<open>world\<close> of the service, so two invocations on the same text may
  answer differently (or fail); \<open>external_calls\<close> counts its invocations.
\<close>

datatype embedding_error = EmbeddingServiceError

record ('fp, 'v, 'w) cache_state =
  durable_store :: "'fp \<rightharpoonup> 'v"
  world :: 'w
  external_calls :: nat

text \<open>
  Modelled from the spec: \<open>embed\<close> of the Embedding Cache (section 4.2), whose code is
  missing; \<open>durable_get\<close> is the lookup in \<open>durable_store\<close>, \<open>durable_put\<close> its update.
\<close>

definition embed ::
  "(string \<Rightarrow> string \<Rightarrow> 'fp) \<Rightarrow> ('w \<Rightarrow> string \<Rightarrow> string \<Rightarrow> 'v option \<times> 'w) \<Rightarrow> string \<Rightarrow> string \<Rightarrow>
   ('fp, 'v, 'w) cache_state \<Rightarrow> (embedding_error + 'v) \<times> ('fp, 'v, 'w) cache_state"
where
  "embed fingerprint embed_vector model_identity text s =
     (case durable_store s (fingerprint model_identity text) of
        Some v \<Rightarrow> (Inr v, s)
      | None \<Rightarrow>
          (case embed_vector (world s) text model_identity of
             (None, w') \<Rightarrow>
               (Inl EmbeddingServiceError,
                s\<lparr>world := w', external_calls := external_calls s + 1\<rparr>)
           | (Some v, w') \<Rightarrow>
               (Inr v,
                s\<lparr>durable_store := (durable_store s)(fingerprint model_identity text \<mapsto> v),
                  world := w', external_calls := external_calls s + 1\<rparr>)))"

section \<open>The Vector Index\<close>

text \<open>
  Modelled from the spec: the Vector Index. \<^verbatim>\<open>main.py\<close> calls \<^verbatim>\<open>FAISS.from_texts\<close> (line 120)
  and \<^verbatim>\<open>similarity_search\<close> (line 152) of LangChain's FAISS wrapper; the code of both is
  not part of the repository's sources. The model follows section 4.3 of the
  specification: \<open>build\<close> embeds every chunk and fails with \<open>IndexBuildError\<close> if an
  embedding fails or the chunk sequence is empty; \<open>search\<close> returns the \<open>k\<close> chunks
  nearest to the query vector, best first, ties in the original chunk order.

  The metric is a parameter \<open>distance\<close> into a linear order (lowest first); \<open>sort_key\<close> is
  a stable sort. The specification gives \<open>search\<close> no failure, and says nothing of a
  negative \<open>k\<close>, so \<open>k\<close> is a natural number. \<open>embed_many\<close> is the batched form of one
  embedding function, stopping at the first failure.
\<close>

datatype index_error = IndexBuildError

text \<open>
  Modelled from the spec: \<open>embed_many\<close>, the batched form of \<open>embed\<close> (section 4.2), whose
  code is missing.
\<close>

fun embed_many :: "(string \<Rightarrow> 'e + 'v) \<Rightarrow> string list \<Rightarrow> 'e + 'v list" where
  "embed_many emb [] = Inr []"
| "embed_many emb (t # ts) =
     (case emb t of
        Inl err \<Rightarrow> Inl err
      | Inr v \<Rightarrow> (case embed_many emb ts of Inl err \<Rightarrow> Inl err | Inr vs \<Rightarrow> Inr (v # vs)))"

text \<open>
  Modelled from the spec: \<open>build\<close> of the Vector Index (section 4.3), whose code is missing.
\<close>

definition build :: "string list \<Rightarrow> (string \<Rightarrow> 'e + 'v) \<Rightarrow> index_error + (string \<times> 'v) list" where
  "build chunks emb =
     (if chunks = [] then Inl IndexBuildError
      else case embed_many emb chunks of
             Inl err \<Rightarrow> Inl IndexBuildError
           | Inr vs \<Rightarrow> Inr (zip chunks vs))"

text \<open>
  Modelled from the spec: \<open>search\<close> of the Vector Index (section 4.3), whose code is missing.
\<close>

definition search ::
  "('v \<Rightarrow> 'v \<Rightarrow> 'd::linorder) \<Rightarrow> (string \<times> 'v) list \<Rightarrow> 'v \<Rightarrow> nat \<Rightarrow> (string \<times> 'd) list"
where
  "search distance index query_vector k =
     take k (sort_key snd (map (\<lambda>(chunk, v). (chunk, distance query_vector v)) index))"

section \<open>Concrete requests\<close>

text \<open>
  The inputs at which the theorems below are evaluated: two PDF files, byte for byte, and
  what the libraries do with them.

  \<^verbatim>\<open>str.strip()\<close> on code points below 256, for the splitter below.
\<close>

definition is_space :: "char \<Rightarrow> bool" where
  "is_space c =
     (let n = of_char c :: nat
      in (9 \<le> n \<and> n \<le> 13) \<or> (28 \<le> n \<and> n \<le> 32) \<or> n = 133 \<or> n = 160)"

definition strip :: "string \<Rightarrow> string" where
  "strip s = rev (dropWhile is_space (rev (dropWhile is_space s)))"

definition encode_ascii :: "string \<Rightarrow> 8 word list" where
  "encode_ascii s = map (\<lambda>c. of_nat (of_char c)) s"

text \<open>A PDF of one page with nothing on it, as a scan without a text layer has no text.\<close>

definition blank_pdf_bytes :: "8 word list" where
  "blank_pdf_bytes =
     encode_ascii (join [CHR 0x0A]
       [''%PDF-1.4'',
        ''1 0 obj'',
        ''<< /Type /Catalog /Pages 2 0 R >>'',
        ''endobj'',
        ''2 0 obj'',
        ''<< /Type /Pages /Kids [3 0 R] /Count 1 >>'',
        ''endobj'',
        ''3 0 obj'',
        ''<< /Type /Page /Parent 2 0 R /MediaBox [0 0 200 200] >>'',
        ''endobj'',
        ''xref'',
        ''0 4'',
        ''0000000000 65535 f '',
        ''0000000009 00000 n '',
        ''0000000058 00000 n '',
        ''0000000115 00000 n '',
        ''trailer'',
        ''<< /Size 4 /Root 1 0 R >>'',
        ''startxref'',
        ''186'',
        ''%%EOF''] @ [CHR 0x0A])"

text \<open>A PDF of two pages, with the words \<^verbatim>\<open>hello\<close> and \<^verbatim>\<open>world\<close> in Helvetica.\<close>

definition text_pdf_bytes :: "8 word list" where
  "text_pdf_bytes =
     encode_ascii (join [CHR 0x0A]
       [''%PDF-1.4'',
        ''1 0 obj'',
        ''<< /Type /Catalog /Pages 2 0 R >>'',
        ''endobj'',
        ''2 0 obj'',
        ''<< /Type /Pages /Kids [3 0 R 4 0 R] /Count 2 >>'',
        ''endobj'',
        ''3 0 obj'',
        ''<< /Type /Page /Parent 2 0 R /MediaBox [0 0 200 200] /Resources << /Font << /F1 7 0 R >> >> /Contents 5 0 R >>'',
        ''endobj'',
        ''4 0 obj'',
        ''<< /Type /Page /Parent 2 0 R /MediaBox [0 0 200 200] /Resources << /Font << /F1 7 0 R >> >> /Contents 6 0 R >>'',
        ''endobj'',
        ''5 0 obj'',
        ''<< /Length 36 >>'',
        ''stream'',
        ''BT /F1 12 Tf 20 100 Td (hello) Tj ET'',
        ''endstream'',
        ''endobj'',
        ''6 0 obj'',
        ''<< /Length 36 >>'',
        ''stream'',
        ''BT /F1 12 Tf 20 100 Td (world) Tj ET'',
        ''endstream'',
        ''endobj'',
        ''7 0 obj'',
        ''<< /Type /Font /Subtype /Type1 /BaseFont /Helvetica >>'',
        ''endobj'',
        ''xref'',
        ''0 8'',
        ''0000000000 65535 f '',
        ''0000000009 00000 n '',
        ''0000000058 00000 n '',
        ''0000000121 00000 n '',
        ''0000000247 00000 n '',
        ''0000000373 00000 n '',
        ''0000000459 00000 n '',
        ''0000000545 00000 n '',
        ''trailer'',
        ''<< /Size 8 /Root 1 0 R >>'',
        ''startxref'',
        ''615'',
        ''%%EOF''] @ [CHR 0x0A])"

text \<open>
  In \<open>library_env\<close> the file write succeeds; \<^verbatim>\<open>fitz\<close> reads the first file as one page with
  the text \<^verbatim>\<open>""\<close>, the second as two pages, each word followed by a newline, and raises on
  any other file; the splitter, on a text of at most \<open>chunk_size\<close> characters, returns the
  stripped text as one chunk, or no chunk when nothing is left of it; the vector-store
  build raises \<^verbatim>\<open>IndexError\<close> on an empty list of chunks (it reads the first embedding), and
  a vector store is the list of its chunks otherwise. \<open>second_env\<close> is a later request.
\<close>

definition library_env :: "string list env" where
  "library_env =
     \<lparr>uuid4 = ''doc-1'', now_isoformat = ''2024-05-01T10:00:00'',
      write_file = (\<lambda>path bytes. None),
      fitz_page_texts =
        (\<lambda>path bytes.
           if bytes = blank_pdf_bytes then Inr ['''']
           else if bytes = text_pdf_bytes
           then Inr [''hello'' @ [CHR 0x0A], ''world'' @ [CHR 0x0A]]
           else Inl ''cannot open broken document''),
      split_text =
        (\<lambda>chunk_size chunk_overlap text. Inr (if strip text = [] then [] else [strip text])),
      from_texts = (\<lambda>texts. if texts = [] then Inl ''list index out of range'' else Inr texts),
      similarity_search = (\<lambda>store query k. Inr (take (nat k) store))\<rparr>"

definition second_env :: "string list env" where
  "second_env = library_env\<lparr>uuid4 := ''doc-2'', now_isoformat := ''2024-05-01T10:05:00''\<rparr>"

definition scan_pdf :: upload_file where
  "scan_pdf = \<lparr>filename = ''scan.pdf'', file_bytes = blank_pdf_bytes\<rparr>"

definition hello_pdf :: upload_file where
  "hello_pdf = \<lparr>filename = ''hello.pdf'', file_bytes = text_pdf_bytes\<rparr>"

definition notes_v1 :: upload_file where
  "notes_v1 = \<lparr>filename = ''notes.txt'', file_bytes = [0x25, 0x50, 0x44, 0x46]\<rparr>"

definition notes_v2 :: upload_file where
  "notes_v2 = \<lparr>filename = ''notes.txt'', file_bytes = [0x68, 0x69]\<rparr>"

definition no_documents :: "string list document_stores" where
  "no_documents = Map.empty"

definition one_document :: "string list document_stores" where
  "one_document = [''doc-1'' \<mapsto> [''first chunk'', ''second chunk'']]"

definition a_question :: question_request where
  "a_question = \<lparr>document_id = ''doc-1'', question = ''what is it?''\<rparr>"

definition only_pdf_error :: error_details where
  "only_pdf_error = \<lparr>status_code = 400, detail = ''Only PDF files are allowed''\<rparr>"

definition not_found_error :: error_details where
  "not_found_error = \<lparr>status_code = 404, detail = ''Document not found''\<rparr>"

text \<open>
  A cache over a service whose answer changes with every invocation, and an index over
  vectors that are natural numbers.
\<close>

definition demo_fingerprint :: "string \<Rightarrow> string \<Rightarrow> string" where
  "demo_fingerprint model_identity text = model_identity @ '':'' @ text"

definition drifting_service :: "nat \<Rightarrow> string \<Rightarrow> string \<Rightarrow> nat list option \<times> nat" where
  "drifting_service w text model_identity = (Some [w, length text], Suc w)"

definition empty_cache :: "(string, nat list, nat) cache_state" where
  "empty_cache = \<lparr>durable_store = Map.empty, world = 0, external_calls = 0\<rparr>"

definition length_embedding :: "string \<Rightarrow> unit + nat" where
  "length_embedding text = Inr (length text)"

definition nat_distance :: "nat \<Rightarrow> nat \<Rightarrow> nat" where
  "nat_distance a b = (if a \<le> b then b - a else a - b)"

section \<open>Properties of the error handler\<close>

lemma handle_error_never_only_pdf:
  "\<not> is_HTTPException err \<Longrightarrow> detail (handle_error err) \<noteq> ''Only PDF files are allowed''"
  by (cases err) simp_all

text \<open>
  Claim C9, as amended. For every exception that is not an \<^verbatim>\<open>HTTPException\<close>: an
  \<^verbatim>\<open>IOError\<close>/\<^verbatim>\<open>OSError\<close> is reported as 500 whatever its message; for any other exception
  the status is chosen by its message text alone: 400 if it contains \<^verbatim>\<open>PDF\<close>, otherwise
  503 if its lowercase form contains \<^verbatim>\<open>openai\<close>, otherwise 500.
\<close>

theorem handle_error_classification:
  "\<not> is_HTTPException err \<Longrightarrow>
   status_code (handle_error err) =
     (if is_OSError err then 500
      else if py_in ''PDF'' (str_of err) then 400
      else if py_in ''openai'' (lower (str_of err)) then 503
      else 500)"
  by (cases err) simp_all

theorem handle_error_classification_witness:
  "\<not> is_HTTPException (PyException ''OpenAI rate limit'') \<and>
   status_code (handle_error (PyException ''OpenAI rate limit'')) = 503"
proof -
  have a: "\<not> is_HTTPException (PyException ''OpenAI rate limit'')" by simp
  have b: "\<not> py_in ''PDF'' ''OpenAI rate limit''" by code_simp
  have c: "py_in ''openai'' (lower ''OpenAI rate limit'')" by code_simp
  from handle_error_classification [OF a] b c a show ?thesis by simp
qed

text \<open>
  The claim as stated fails: an \<^verbatim>\<open>OSError\<close> whose message contains \<^verbatim>\<open>PDF\<close> is reported as
  500, while another exception with the same message is reported as 400.
\<close>

theorem handle_error_message_alone_counterexample:
  "\<not> is_HTTPException (OSError ''cannot save PDF'') \<and>
   py_in ''PDF'' (str_of (OSError ''cannot save PDF'')) \<and>
   status_code (handle_error (OSError ''cannot save PDF'')) = 500 \<and>
   str_of (PyException ''cannot save PDF'') = str_of (OSError ''cannot save PDF'') \<and>
   status_code (handle_error (PyException ''cannot save PDF'')) = 400"
proof -
  have "py_in ''PDF'' ''cannot save PDF''" by code_simp
  then show ?thesis by simp
qed

section \<open>Properties of the upload handler\<close>

lemma snd_upload_pdf: "snd (upload_pdf e stores file) = snd (upload_pdf_body e stores file)"
  by (auto simp: upload_pdf_def split: prod.splits sum.splits)

lemma fst_upload_pdf_Inl:
  "(fst (upload_pdf e stores file) = Inl d) =
   (\<exists>err. fst (upload_pdf_body e stores file) = Inl err \<and> d = handle_error err)"
  by (auto simp: upload_pdf_def split: prod.splits sum.splits)

lemma fst_upload_pdf_Inr:
  "(fst (upload_pdf e stores file) = Inr r) = (fst (upload_pdf_body e stores file) = Inr r)"
  by (auto simp: upload_pdf_def split: prod.splits sum.splits)

lemma upload_pdf_body_invalid:
  "\<not> endswith (filename file) ''.pdf'' \<Longrightarrow>
   upload_pdf_body e stores file = (Inl (HTTPException 400 ''Only PDF files are allowed''), stores)"
  by (simp add: upload_pdf_body_def)

lemma upload_pdf_body_valid_not_http:
  "endswith (filename file) ''.pdf'' \<Longrightarrow> fst (upload_pdf_body e stores file) = Inl err \<Longrightarrow>
   \<not> is_HTTPException err"
  by (auto simp: upload_pdf_body_def Let_def split: option.splits sum.splits)

lemma upload_pdf_body_fail_stores:
  "fst (upload_pdf_body e stores file) = Inl err \<Longrightarrow> snd (upload_pdf_body e stores file) = stores"
  by (auto simp: upload_pdf_body_def Let_def split: option.splits sum.splits if_splits)

lemma upload_pdf_body_other_ids:
  "k \<noteq> uuid4 e \<Longrightarrow> snd (upload_pdf_body e stores file) k = stores k"
  by (auto simp: upload_pdf_body_def Let_def split: option.splits sum.splits if_splits)

lemma upload_pdf_body_registered:
  "stores (uuid4 e) = None \<Longrightarrow> snd (upload_pdf_body e stores file) (uuid4 e) = Some vs \<Longrightarrow>
   endswith (filename file) ''.pdf'' \<and>
   write_file e (file_path_of e) (file_bytes file) = None \<and>
   (\<exists>pages texts.
      fitz_page_texts e (file_path_of e) (file_bytes file) = Inr pages \<and>
      split_text e 1000 200 (join '' '' pages) = Inr texts \<and>
      from_texts e texts = Inr vs) \<and>
   (\<exists>r. fst (upload_pdf_body e stores file) = Inr r)"
  by (auto simp: upload_pdf_body_def file_path_of_def Let_def
           split: option.splits sum.splits if_splits)

lemma upload_pdf_body_succeeds_iff:
  "(\<exists>r. fst (upload_pdf_body e stores file) = Inr r) =
   (endswith (filename file) ''.pdf'' \<and>
    write_file e (file_path_of e) (file_bytes file) = None \<and>
    (\<exists>pages texts vs.
      fitz_page_texts e (file_path_of e) (file_bytes file) = Inr pages \<and>
      split_text e 1000 200 (join '' '' pages) = Inr texts \<and>
      from_texts e texts = Inr vs))"
  by (auto simp: upload_pdf_body_def file_path_of_def Let_def
           split: option.splits sum.splits if_splits)

lemma upload_pdf_rejects_iff:
  "fst (upload_pdf e stores file) = Inl only_pdf_error \<longleftrightarrow> \<not> endswith (filename file) ''.pdf''"
proof (cases "endswith (filename file) ''.pdf''")
  case False
  then show ?thesis
    by (simp add: upload_pdf_def upload_pdf_body_invalid only_pdf_error_def)
next
  case True
  have "fst (upload_pdf e stores file) \<noteq> Inl only_pdf_error"
  proof
    assume "fst (upload_pdf e stores file) = Inl only_pdf_error"
    then obtain err where b: "fst (upload_pdf_body e stores file) = Inl err"
      and d: "only_pdf_error = handle_error err"
      by (auto simp: fst_upload_pdf_Inl)
    from upload_pdf_body_valid_not_http [OF True b] have "\<not> is_HTTPException err" .
    from handle_error_never_only_pdf [OF this] d show False
      by (simp add: only_pdf_error_def)
  qed
  with True show ?thesis by simp
qed

lemma ask_question_unknown:
  "stores (document_id request) = None \<Longrightarrow> ask_question e stores request = Inl not_found_error"
  by (simp add: ask_question_def ask_question_body_def not_found_error_def)

lemma join_blank:
  "\<forall>p \<in> set pages. p = [] \<Longrightarrow> \<forall>c \<in> set (join '' '' pages). c = CHR '' ''"
  by (induction "'' ''" pages rule: join.induct) auto

lemma strip_blank:
  assumes "\<forall>c \<in> set t. is_space c"
  shows "strip t = []"
proof -
  from assms have "dropWhile is_space t = []"
    by simp
  then show ?thesis
    unfolding strip_def by (simp only: rev.simps dropWhile.simps)
qed

lemma is_space_blank: "is_space (CHR '' '')"
  by (simp add: is_space_def)

lemma library_env_blank_split:
  "\<forall>t. (\<forall>c \<in> set t. c = CHR '' '') \<longrightarrow> split_text library_env 1000 200 t = Inr []"
proof (intro allI impI)
  fix t :: string
  assume blank: "\<forall>c \<in> set t. c = CHR '' ''"
  have "\<forall>c \<in> set t. is_space c"
  proof
    fix c
    assume "c \<in> set t"
    with blank have "c = CHR '' ''" ..
    then show "is_space c"
      by (simp only: is_space_blank)
  qed
  then have "strip t = []"
    by (rule strip_blank)
  then show "split_text library_env 1000 200 t = Inr []"
    by (simp add: library_env_def)
qed

lemma text_pdf_not_blank: "text_pdf_bytes \<noteq> blank_pdf_bytes"
proof -
  have "length text_pdf_bytes \<noteq> length blank_pdf_bytes"
    by (simp add: text_pdf_bytes_def blank_pdf_bytes_def encode_ascii_def)
  then show ?thesis by auto
qed

lemma scanned_upload_body:
  "upload_pdf_body library_env no_documents scan_pdf =
     (Inl (PyException ''Failed to process document: list index out of range''), no_documents)"
proof -
  have "endswith ''scan.pdf'' ''.pdf''" by code_simp
  then show ?thesis
    by (simp add: upload_pdf_body_def library_env_def scan_pdf_def strip_def)
qed

lemma scanned_upload:
  "upload_pdf library_env no_documents scan_pdf =
     (Inl \<lparr>status_code = 500,
           detail = ''Unexpected error: Failed to process document: list index out of range''\<rparr>,
      no_documents)"
proof -
  have a: "\<not> py_in ''PDF'' ''Failed to process document: list index out of range''"
    by code_simp
  have b: "\<not> py_in ''openai'' (lower ''Failed to process document: list index out of range'')"
    by code_simp
  show ?thesis
    using a b by (simp add: upload_pdf_def scanned_upload_body)
qed

lemma hello_chunk:
  "strip (join '' '' [''hello'' @ [CHR 0x0A], ''world'' @ [CHR 0x0A]]) =
     ''hello'' @ [CHR 0x0A] @ '' world''"
  by code_simp

lemma text_upload:
  "upload_pdf library_env no_documents hello_pdf =
     (Inr \<lparr>upload_id = ''doc-1'', upload_name = ''hello.pdf'',
           upload_timestamp = ''2024-05-01T10:00:00''\<rparr>,
      no_documents(''doc-1'' \<mapsto> [''hello'' @ [CHR 0x0A] @ '' world'']))"
proof -
  have "endswith ''hello.pdf'' ''.pdf''" by code_simp
  then show ?thesis
    using hello_chunk
    by (simp add: upload_pdf_def upload_pdf_body_def library_env_def hello_pdf_def
                  text_pdf_not_blank Let_def)
qed

text \<open>
  Claim C1, as amended. For every upload whose extraction succeeds and yields no text on
  any page, with a splitter that returns no chunk for a text of spaces only and a
  vector-store build that fails on no chunks (as the libraries do): the upload fails, not
  with the extraction error of line 108 but with the build's error of line 124,
  \<^verbatim>\<open>Failed to process document: ...\<close>, reported through \<^verbatim>\<open>handle_error\<close>; no document id is
  registered, \<^verbatim>\<open>document_stores\<close> is unchanged; and an \<^verbatim>\<open>ask\<close> against any id that is not in
  \<^verbatim>\<open>document_stores\<close> returns 404, \<^verbatim>\<open>Document not found\<close>.
\<close>

theorem empty_text_upload_fails:
  assumes "endswith (filename file) ''.pdf''"
    and "write_file e (file_path_of e) (file_bytes file) = None"
    and "fitz_page_texts e (file_path_of e) (file_bytes file) = Inr pages"
    and "\<forall>p \<in> set pages. p = []"
    and "\<forall>t. (\<forall>c \<in> set t. c = CHR '' '') \<longrightarrow> split_text e 1000 200 t = Inr []"
    and "from_texts e [] = Inl m"
  shows "upload_pdf_body e stores file =
           (Inl (PyException (''Failed to process document: '' @ m)), stores) \<and>
         (\<forall>m'. PyException (''Failed to process document: '' @ m) \<noteq>
                PyException (''Failed to extract text from PDF: '' @ m')) \<and>
         upload_pdf e stores file =
           (Inl (handle_error (PyException (''Failed to process document: '' @ m))), stores) \<and>
         (\<forall>e' request. stores (document_id request) = None \<longrightarrow>
            ask_question e' (snd (upload_pdf e stores file)) request = Inl not_found_error)"
proof -
  have "\<forall>c \<in> set (join '' '' pages). c = CHR '' ''"
    using assms(4) by (rule join_blank)
  with assms(5) have split: "split_text e 1000 200 (join '' '' pages) = Inr []"
    by blast
  have a: "upload_pdf_body e stores file =
             (Inl (PyException (''Failed to process document: '' @ m)), stores)"
    using assms(1,2,3,6) split
    by (simp add: upload_pdf_body_def file_path_of_def Let_def)
  have b: "\<forall>m'. PyException (''Failed to process document: '' @ m) \<noteq>
                PyException (''Failed to extract text from PDF: '' @ m')"
    by simp
  have c: "upload_pdf e stores file =
             (Inl (handle_error (PyException (''Failed to process document: '' @ m))), stores)"
    by (simp add: upload_pdf_def a)
  have d: "\<forall>e' request. stores (document_id request) = None \<longrightarrow>
            ask_question e' (snd (upload_pdf e stores file)) request = Inl not_found_error"
    by (simp add: c ask_question_unknown)
  from a b c d show ?thesis by blast
qed

theorem empty_text_upload_fails_witness:
  "fitz_page_texts library_env (file_path_of library_env) (file_bytes scan_pdf) = Inr [''''] \<and>
   upload_pdf library_env no_documents scan_pdf =
     (Inl \<lparr>status_code = 500,
           detail = ''Unexpected error: Failed to process document: list index out of range''\<rparr>,
      no_documents) \<and>
   ask_question second_env (snd (upload_pdf library_env no_documents scan_pdf)) a_question =
     Inl not_found_error"
proof -
  have 1: "endswith (filename scan_pdf) ''.pdf''"
    unfolding scan_pdf_def by code_simp
  have 2: "write_file library_env (file_path_of library_env) (file_bytes scan_pdf) = None"
    by (simp add: library_env_def)
  have 3: "fitz_page_texts library_env (file_path_of library_env) (file_bytes scan_pdf) = Inr ['''']"
    by (simp add: library_env_def scan_pdf_def)
  have 4: "\<forall>p \<in> set ['''']. p = []"
    by simp
  have 6: "from_texts library_env [] = Inl ''list index out of range''"
    by (simp add: library_env_def)
  have 7: "no_documents (document_id a_question) = None"
    by (simp add: no_documents_def)
  from empty_text_upload_fails [OF 1 2 3 4 library_env_blank_split 6, of no_documents]
  have "\<forall>e' request. no_documents (document_id request) = None \<longrightarrow>
          ask_question e' (snd (upload_pdf library_env no_documents scan_pdf)) request =
            Inl not_found_error"
    by blast
  with 7 have "ask_question second_env (snd (upload_pdf library_env no_documents scan_pdf))
                 a_question = Inl not_found_error"
    by blast
  with 3 scanned_upload show ?thesis
    by blast
qed

text \<open>
  The claim as stated fails: \<open>scan_pdf\<close> has one page with no text, its extraction
  succeeds, and the upload fails in the vector-store build, with status 500, not with
  the extraction error of line 108 (status 400).
\<close>

theorem empty_text_extraction_error_counterexample:
  "fitz_page_texts library_env (file_path_of library_env) (file_bytes scan_pdf) = Inr [''''] \<and>
   fst (upload_pdf_body library_env no_documents scan_pdf) =
     Inl (PyException ''Failed to process document: list index out of range'') \<and>
   fst (upload_pdf library_env no_documents scan_pdf) =
     Inl \<lparr>status_code = 500,
          detail = ''Unexpected error: Failed to process document: list index out of range''\<rparr>"
proof -
  have "fitz_page_texts library_env (file_path_of library_env) (file_bytes scan_pdf) = Inr ['''']"
    by (simp add: library_env_def scan_pdf_def)
  moreover have "fst (upload_pdf_body library_env no_documents scan_pdf) =
      Inl (PyException ''Failed to process document: list index out of range'')"
    by (simp only: scanned_upload_body fst_conv)
  moreover have "fst (upload_pdf library_env no_documents scan_pdf) =
      Inl \<lparr>status_code = 500,
           detail = ''Unexpected error: Failed to process document: list index out of range''\<rparr>"
    by (simp only: scanned_upload fst_conv)
  ultimately show ?thesis by blast
qed

text \<open>
  Claim C6. For every upload that draws a fresh identifier: if the upload fails, at
  whichever step, \<^verbatim>\<open>document_stores\<close> is unchanged and the identifier is not in it; the
  upload fails exactly when the filename test, the file write, the text extraction, the
  chunking or the vector-store build fails; the identifier is in \<^verbatim>\<open>document_stores\<close>
  afterwards only if the build succeeded, and then it maps to the store that was built; no
  other identifier is touched.
\<close>

theorem no_partial_registration:
  assumes "stores (uuid4 e) = None"
  shows "(\<forall>d. fst (upload_pdf e stores file) = Inl d \<longrightarrow>
            snd (upload_pdf e stores file) = stores \<and>
            snd (upload_pdf e stores file) (uuid4 e) = None) \<and>
         ((\<exists>d. fst (upload_pdf e stores file) = Inl d) =
            (\<not> (endswith (filename file) ''.pdf'' \<and>
                write_file e (file_path_of e) (file_bytes file) = None \<and>
                (\<exists>pages texts vs.
                   fitz_page_texts e (file_path_of e) (file_bytes file) = Inr pages \<and>
                   split_text e 1000 200 (join '' '' pages) = Inr texts \<and>
                   from_texts e texts = Inr vs)))) \<and>
         (\<forall>vs. snd (upload_pdf e stores file) (uuid4 e) = Some vs \<longrightarrow>
            (\<exists>pages texts.
               fitz_page_texts e (file_path_of e) (file_bytes file) = Inr pages \<and>
               split_text e 1000 200 (join '' '' pages) = Inr texts \<and>
               from_texts e texts = Inr vs) \<and>
            (\<exists>r. fst (upload_pdf e stores file) = Inr r)) \<and>
         (\<forall>k. k \<noteq> uuid4 e \<longrightarrow> snd (upload_pdf e stores file) k = stores k)"
proof -
  let ?b = "upload_pdf_body e stores file"
  have 1: "\<forall>d. fst (upload_pdf e stores file) = Inl d \<longrightarrow>
            snd (upload_pdf e stores file) = stores \<and>
            snd (upload_pdf e stores file) (uuid4 e) = None"
    using assms by (auto simp: fst_upload_pdf_Inl snd_upload_pdf upload_pdf_body_fail_stores)
  have "(\<exists>d. fst (upload_pdf e stores file) = Inl d) = (\<not> (\<exists>r. fst ?b = Inr r))"
    by (cases "fst ?b") (auto simp: fst_upload_pdf_Inl)
  then have 2: "(\<exists>d. fst (upload_pdf e stores file) = Inl d) =
            (\<not> (endswith (filename file) ''.pdf'' \<and>
                write_file e (file_path_of e) (file_bytes file) = None \<and>
                (\<exists>pages texts vs.
                   fitz_page_texts e (file_path_of e) (file_bytes file) = Inr pages \<and>
                   split_text e 1000 200 (join '' '' pages) = Inr texts \<and>
                   from_texts e texts = Inr vs)))"
    by (simp only: upload_pdf_body_succeeds_iff)
  have 3: "\<forall>vs. snd (upload_pdf e stores file) (uuid4 e) = Some vs \<longrightarrow>
            (\<exists>pages texts.
               fitz_page_texts e (file_path_of e) (file_bytes file) = Inr pages \<and>
               split_text e 1000 200 (join '' '' pages) = Inr texts \<and>
               from_texts e texts = Inr vs) \<and>
            (\<exists>r. fst (upload_pdf e stores file) = Inr r)"
  proof (intro allI impI)
    fix vs
    assume "snd (upload_pdf e stores file) (uuid4 e) = Some vs"
    then have "snd ?b (uuid4 e) = Some vs"
      by (simp add: snd_upload_pdf)
    with assms have "endswith (filename file) ''.pdf'' \<and>
        write_file e (file_path_of e) (file_bytes file) = None \<and>
        (\<exists>pages texts.
           fitz_page_texts e (file_path_of e) (file_bytes file) = Inr pages \<and>
           split_text e 1000 200 (join '' '' pages) = Inr texts \<and>
           from_texts e texts = Inr vs) \<and>
        (\<exists>r. fst ?b = Inr r)"
      by (rule upload_pdf_body_registered)
    then show "(\<exists>pages texts.
               fitz_page_texts e (file_path_of e) (file_bytes file) = Inr pages \<and>
               split_text e 1000 200 (join '' '' pages) = Inr texts \<and>
               from_texts e texts = Inr vs) \<and>
            (\<exists>r. fst (upload_pdf e stores file) = Inr r)"
      by (simp add: fst_upload_pdf_Inr)
  qed
  have 4: "\<forall>k. k \<noteq> uuid4 e \<longrightarrow> snd (upload_pdf e stores file) k = stores k"
    by (simp add: snd_upload_pdf upload_pdf_body_other_ids)
  from 1 2 3 4 show ?thesis by blast
qed

theorem no_partial_registration_witness:
  "no_documents (uuid4 library_env) = None \<and>
   (\<exists>d. fst (upload_pdf library_env no_documents scan_pdf) = Inl d) \<and>
   snd (upload_pdf library_env no_documents scan_pdf) = no_documents \<and>
   snd (upload_pdf library_env no_documents scan_pdf) (uuid4 library_env) = None \<and>
   snd (upload_pdf library_env no_documents hello_pdf) (uuid4 library_env) =
     Some [''hello'' @ [CHR 0x0A] @ '' world''] \<and>
   (\<exists>pages texts.
      fitz_page_texts library_env (file_path_of library_env) (file_bytes hello_pdf) = Inr pages \<and>
      split_text library_env 1000 200 (join '' '' pages) = Inr texts \<and>
      from_texts library_env texts = Inr [''hello'' @ [CHR 0x0A] @ '' world''])"
proof -
  have f1: "no_documents (uuid4 library_env) = None"
    by (simp add: no_documents_def)
  have f2: "fst (upload_pdf library_env no_documents scan_pdf) =
              Inl \<lparr>status_code = 500,
                   detail = ''Unexpected error: Failed to process document: list index out of range''\<rparr>"
    by (simp add: scanned_upload)
  have t2: "snd (upload_pdf library_env no_documents hello_pdf) (uuid4 library_env) =
              Some [''hello'' @ [CHR 0x0A] @ '' world'']"
    by (simp add: text_upload) (simp add: library_env_def)
  from no_partial_registration [of no_documents library_env scan_pdf, OF f1] f2
  have a: "snd (upload_pdf library_env no_documents scan_pdf) = no_documents \<and>
           snd (upload_pdf library_env no_documents scan_pdf) (uuid4 library_env) = None"
    by blast
  from no_partial_registration [of no_documents library_env hello_pdf, OF f1] t2
  have b: "\<exists>pages texts.
      fitz_page_texts library_env (file_path_of library_env) (file_bytes hello_pdf) = Inr pages \<and>
      split_text library_env 1000 200 (join '' '' pages) = Inr texts \<and>
      from_texts library_env texts = Inr [''hello'' @ [CHR 0x0A] @ '' world'']"
    by blast
  from f1 f2 t2 a b show ?thesis by blast
qed

text \<open>
  Claim C10. For every pair of upload requests with the same filename, whatever their
  file contents (and whatever the libraries and \<^verbatim>\<open>document_stores\<close> do), the two are
  rejected with 400, \<^verbatim>\<open>Only PDF files are allowed\<close>, together or not at all: that outcome
  holds exactly when the filename does not end with \<^verbatim>\<open>.pdf\<close>.
\<close>

theorem upload_validation_filename_only:
  assumes "filename f1 = filename f2"
  shows "(fst (upload_pdf e1 stores1 f1) = Inl only_pdf_error) =
         (fst (upload_pdf e2 stores2 f2) = Inl only_pdf_error) \<and>
         (fst (upload_pdf e1 stores1 f1) = Inl only_pdf_error) =
         (\<not> endswith (filename f1) ''.pdf'')"
  using assms by (simp add: upload_pdf_rejects_iff)

theorem upload_validation_filename_only_witness:
  "filename notes_v1 = filename notes_v2 \<and> file_bytes notes_v1 \<noteq> file_bytes notes_v2 \<and>
   fst (upload_pdf second_env no_documents notes_v1) = Inl only_pdf_error \<and>
   fst (upload_pdf library_env one_document notes_v2) = Inl only_pdf_error"
proof -
  have n: "filename notes_v1 = filename notes_v2"
    by (simp add: notes_v1_def notes_v2_def)
  have b: "file_bytes notes_v1 \<noteq> file_bytes notes_v2"
    by (simp add: notes_v1_def notes_v2_def)
  have "\<not> endswith ''notes.txt'' ''.pdf''" by code_simp
  then have s: "\<not> endswith (filename notes_v1) ''.pdf''"
    by (simp add: notes_v1_def)
  from upload_validation_filename_only [OF n, of second_env no_documents library_env one_document] s
  have "fst (upload_pdf second_env no_documents notes_v1) = Inl only_pdf_error \<and>
        fst (upload_pdf library_env one_document notes_v2) = Inl only_pdf_error"
    by blast
  with n b show ?thesis by blast
qed

section \<open>Properties of the question handler\<close>

text \<open>
  Claim C8. For every successful \<^verbatim>\<open>ask\<close>, the document's vector store was queried with the
  question and \<open>k = 4\<close>, the texts returned were joined in the order returned with a newline
  between them, and the answer is the fixed text
  \<^verbatim>\<open>Based on the context, here is the answer: \<close> followed by the first 500 characters of
  that context and three dots.
\<close>

theorem ask_answer_template:
  assumes "ask_question e stores request = Inr r"
  shows "\<exists>vector_store docs.
           stores (document_id request) = Some vector_store \<and>
           similarity_search e vector_store (question request) 4 = Inr docs \<and>
           ask_answer r =
             ''Based on the context, here is the answer: '' @ take 500 (join [CHR 0x0A] docs) @ ''...''"
  using assms
  by (auto simp: ask_question_def ask_question_body_def Let_def split: option.splits sum.splits)

lemma ask_one_document:
  "ask_question second_env one_document a_question =
     Inr \<lparr>ask_id = ''doc-2'', ask_question_text = ''what is it?'',
          ask_answer = ''Based on the context, here is the answer: '' @
                       take 500 (join [CHR 0x0A] [''first chunk'', ''second chunk'']) @ ''...'',
          ask_timestamp = ''2024-05-01T10:05:00''\<rparr>"
  by (simp add: ask_question_def ask_question_body_def second_env_def library_env_def
                one_document_def a_question_def Let_def)

theorem ask_answer_template_witness:
  "\<exists>r vector_store docs.
     ask_question second_env one_document a_question = Inr r \<and>
     one_document (document_id a_question) = Some vector_store \<and>
     similarity_search second_env vector_store (question a_question) 4 = Inr docs \<and>
     ask_answer r =
       ''Based on the context, here is the answer: '' @ take 500 (join [CHR 0x0A] docs) @ ''...''"
  using ask_answer_template [OF ask_one_document] ask_one_document by blast

section \<open>Properties of the Embedding Cache\<close>

lemma embed_hit:
  "durable_store s (fp m t) = Some v \<Longrightarrow> embed fp ext m t s = (Inr v, s)"
  by (simp add: embed_def)

lemma embed_returns_stored:
  "embed fp ext m t s = (Inr v, s1) \<Longrightarrow> durable_store s1 (fp m t) = Some v"
  by (auto simp: embed_def split: option.splits prod.splits)

lemma embed_calls_le:
  "embed fp ext m t s = (r, s1) \<Longrightarrow> external_calls s1 \<le> external_calls s + 1"
  by (auto simp: embed_def split: option.splits prod.splits)

text \<open>
  Claim C5. For every text and model identity, when a call of \<open>embed\<close> returns a vector, a
  second call with the same input returns the same vector and leaves the cache as it
  was, so that the two calls together invoke the external capability at most once; and
  on a fingerprint hit \<open>embed\<close> returns the stored vector without invoking the external
  capability at all.
\<close>

theorem cache_idempotence:
  assumes "embed fp ext m t s = (Inr v, s1)"
  shows "embed fp ext m t s1 = (Inr v, s1) \<and>
         external_calls (snd (embed fp ext m t s1)) \<le> external_calls s + 1 \<and>
         (\<forall>s' v'. durable_store s' (fp m t) = Some v' \<longrightarrow>
            embed fp ext m t s' = (Inr v', s') \<and>
            external_calls (snd (embed fp ext m t s')) = external_calls s')"
proof -
  have "durable_store s1 (fp m t) = Some v"
    using assms by (rule embed_returns_stored)
  then have again: "embed fp ext m t s1 = (Inr v, s1)"
    by (rule embed_hit)
  have "external_calls s1 \<le> external_calls s + 1"
    using assms by (rule embed_calls_le)
  with again show ?thesis
    by (simp add: embed_hit)
qed

lemma embed_empty_cache:
  "embed demo_fingerprint drifting_service ''ada'' ''hello'' empty_cache =
     (Inr [0, 5],
      \<lparr>durable_store = [''ada:hello'' \<mapsto> [0, 5]], world = Suc 0, external_calls = 1\<rparr>)"
  by (simp add: embed_def demo_fingerprint_def drifting_service_def empty_cache_def
                eval_nat_numeral)

theorem cache_idempotence_witness:
  "embed demo_fingerprint drifting_service ''ada'' ''hello'' empty_cache =
     (Inr [0, 5],
      \<lparr>durable_store = [''ada:hello'' \<mapsto> [0, 5]], world = Suc 0, external_calls = 1\<rparr>) \<and>
   embed demo_fingerprint drifting_service ''ada'' ''hello''
     \<lparr>durable_store = [''ada:hello'' \<mapsto> [0, 5]], world = Suc 0, external_calls = 1\<rparr> =
     (Inr [0, 5],
      \<lparr>durable_store = [''ada:hello'' \<mapsto> [0, 5]], world = Suc 0, external_calls = 1\<rparr>) \<and>
   fst (drifting_service (Suc 0) ''hello'' ''ada'') \<noteq> Some [0, 5]"
  using cache_idempotence [OF embed_empty_cache] embed_empty_cache
  by (simp add: drifting_service_def)

section \<open>Properties of the Vector Index\<close>

lemma embed_many_length: "embed_many emb ts = Inr vs \<Longrightarrow> length vs = length ts"
  by (induction ts arbitrary: vs) (auto split: sum.splits)

lemma build_chunks:
  "build chunks emb = Inr index \<Longrightarrow> map fst index = chunks \<and> chunks \<noteq> []"
  by (auto simp: build_def embed_many_length split: if_splits sum.splits)

lemma search_length: "length (search distance index q k) = min k (length index)"
  by (simp add: search_def min.commute)

lemma search_all:
  assumes "length index \<le> k"
  shows "mset (map fst (search distance index q k)) = mset (map fst index)"
proof -
  from assms have "search distance index q k =
      sort_key snd (map (\<lambda>(chunk, v). (chunk, distance q v)) index)"
    by (simp add: search_def)
  moreover have "map fst (map (\<lambda>(chunk, v). (chunk, distance q v)) index) = map fst index"
    by (induction index) auto
  ultimately show ?thesis
    by (metis mset_map mset_sort)
qed

text \<open>
  Claim C7. For every index built over \<open>n\<close> chunks and every query vector, \<open>search\<close>
  returns at most \<open>k\<close> results; when \<open>k\<close> is greater than \<open>n\<close> it returns \<open>n\<close> results, which
  are all the chunks, each as often as it was indexed. \<open>search\<close> has no failure.
\<close>

theorem search_k_exceeds_size:
  assumes "build chunks emb = Inr index"
  shows "length (search distance index q k) \<le> k \<and>
         (length chunks < k \<longrightarrow>
            length (search distance index q k) = length chunks \<and>
            mset (map fst (search distance index q k)) = mset chunks)"
proof -
  from assms have c: "map fst index = chunks"
    by (simp add: build_chunks)
  then have l: "length index = length chunks"
    by (metis length_map)
  show ?thesis
  proof (intro conjI impI)
    show "length (search distance index q k) \<le> k"
      by (simp add: search_length)
  next
    assume "length chunks < k"
    with l show "length (search distance index q k) = length chunks"
      by (simp add: search_length)
  next
    assume "length chunks < k"
    with l have "length index \<le> k" by simp
    then show "mset (map fst (search distance index q k)) = mset chunks"
      unfolding c [symmetric] by (rule search_all)
  qed
qed

lemma build_two_chunks:
  "build [''alpha'', ''be''] length_embedding = Inr [(''alpha'', 5), (''be'', 2)]"
  by (simp add: build_def length_embedding_def)

theorem search_k_exceeds_size_witness:
  "build [''alpha'', ''be''] length_embedding = Inr [(''alpha'', 5), (''be'', 2)] \<and>
   length [''alpha'', ''be''] < (4 :: nat) \<and>
   length (search nat_distance [(''alpha'', 5), (''be'', 2)] 1 4) = 2 \<and>
   mset (map fst (search nat_distance [(''alpha'', 5), (''be'', 2)] 1 4)) = mset [''alpha'', ''be''] \<and>
   search nat_distance [(''alpha'', 5), (''be'', 2)] 1 4 = [(''be'', 1), (''alpha'', 4)]"
proof -
  have s: "search nat_distance [(''alpha'', 5), (''be'', 2)] 1 4 = [(''be'', 1), (''alpha'', 4)]"
    by (simp add: search_def nat_distance_def)
  from search_k_exceeds_size [OF build_two_chunks, of nat_distance 1 4] build_two_chunks s
  show ?thesis by simp
qed

end
